theory Spec2Isabelle
  imports Complex_Main
begin

section \<open>Values shared by the API modules\<close>

text \<open>
  JSON values, as \<open>response.json()\<close>, \<open>jwt.decode\<close> and the bodies of the JSON
  responses carry them. An object is an association list read with \<open>map_of\<close>.
  Numbers are modelled as integers.
\<close>

datatype jval =
    JNull
  | JBool bool
  | JNum int
  | JStr string
  | JArr "jval list"
  | JObj "(string \<times> jval) list"

text \<open>
  The exceptions the modelled code raises or lets through. \<open>TokenValidationError\<close>
  carries the reason stored under \<open>details["reason"]\<close>; \<open>KeyError\<close> carries the
  missing key; \<open>HTTPException\<close> carries status code, detail and headers; the others
  carry their message. \<open>OtherException\<close> is any other subclass of \<open>Exception\<close>.
\<close>

datatype exn =
    TokenValidationError string
  | JWTError string
  | HTTPError string
  | ZeroDivisionError string
  | KeyError string
  | AttributeError string
  | TypeError string
  | HTTPException int jval "(string \<times> string) list"
  | OtherException string

text \<open>Python's \<open>int(x)\<close> on a float: truncation towards zero.\<close>

definition py_int :: "real \<Rightarrow> int" where
  "py_int x = (if 0 \<le> x then \<lfloor>x\<rfloor> else \<lceil>x\<rceil>)"

text \<open>\<open>str(n)\<close> for an integer: decimal digits, with a minus sign when negative.\<close>

definition digit_char :: "nat \<Rightarrow> char" where
  "digit_char d = char_of (48 + d)"

fun str_nat :: "nat \<Rightarrow> string" where
  "str_nat n = (if n < 10 then [digit_char n] else str_nat (n div 10) @ [digit_char (n mod 10)])"

declare str_nat.simps [simp del]

definition str_int :: "int \<Rightarrow> string" where
  "str_int i = (if i < 0 then CHR ''-'' # str_nat (nat (- i)) else str_nat (nat i))"

text \<open>\<open>sub in s\<close> on two strings: \<open>sub\<close> occurs as a contiguous piece of \<open>s\<close>.\<close>

fun str_contains :: "string \<Rightarrow> string \<Rightarrow> bool" where
  "str_contains sub [] = (sub = [])"
| "str_contains sub (c # cs) = (take (length sub) (c # cs) = sub \<or> str_contains sub cs)"

section \<open>Requests and responses\<close>

text \<open>
  The parts of a Starlette request the middleware reads: \<open>request.client.host\<close>
  (\<open>None\<close> when \<open>request.client\<close> is \<open>None\<close>), the attributes set on
  \<open>request.state\<close>, the URL path, the HTTP method, and the headers keyed by their
  lower-cased names (Starlette compares header names case-insensitively).
\<close>

record request =
  client_host :: "string option"
  state :: "string \<rightharpoonup> string"
  url_path :: string
  http_method :: string
  req_headers :: "string \<rightharpoonup> string"

record response =
  status_code :: int
  content :: jval
  resp_headers :: "string \<rightharpoonup> string"

section \<open>rate\_limit.py\<close>

record bucket =
  tokens :: real
  last_update :: real

text \<open>
  \<open>RateLimiter.__init__\<close> stores \<open>rate\<close> and \<open>per\<close> and starts with no bucket; the
  \<open>defaultdict\<close> factory makes a bucket \<open>{"tokens": rate, "last_update": time.time()}\<close>
  when a missing key is read.
\<close>

record RateLimiter =
  rate :: int
  per :: int
  buckets :: "string \<rightharpoonup> bucket"

definition RateLimiter_init :: "int \<Rightarrow> int \<Rightarrow> RateLimiter" where
  "RateLimiter_init r p = \<lparr>rate = r, per = p, buckets = Map.empty\<rparr>"

text \<open>
  \<open>self.buckets[client_id]\<close>: the stored bucket, or a new one from the factory, which
  reads the clock (\<open>t_new\<close>) and is stored under the key.
\<close>

definition buckets_getitem :: "RateLimiter \<Rightarrow> string \<Rightarrow> real \<Rightarrow> bucket \<times> RateLimiter" where
  "buckets_getitem self client_id t_new =
     (case buckets self client_id of
        Some b \<Rightarrow> (b, self)
      | None \<Rightarrow>
          (let b = \<lparr>tokens = real_of_int (rate self), last_update = t_new\<rparr>
           in (b, self\<lparr>buckets := (buckets self)(client_id \<mapsto> b)\<rparr>)))"

definition get_client_id :: "request \<Rightarrow> string" where
  "get_client_id request =
     (let client_ip = (case client_host request of Some h \<Rightarrow> h | None \<Rightarrow> ''unknown'')
      in case state request ''user_oid'' of
           None \<Rightarrow> client_ip
         | Some user_oid \<Rightarrow>
             if user_oid \<noteq> [] then client_ip @ '':'' @ user_oid else client_ip)"

text \<open>
  \<open>_refill_tokens\<close>, with the reading \<open>now\<close> of \<open>time.time()\<close>. The division by
  \<open>self.per\<close> raises when \<open>per\<close> is 0, before the bucket is written.
\<close>

definition refill_tokens :: "RateLimiter \<Rightarrow> bucket \<Rightarrow> real \<Rightarrow> exn + bucket" where
  "refill_tokens self b now =
     (let elapsed = now - last_update b
      in if per self = 0 then Inl (ZeroDivisionError ''float division by zero'')
         else
           (let tokens_to_add = (elapsed / real_of_int (per self)) * real_of_int (rate self)
            in Inr (b\<lparr>tokens := min (real_of_int (rate self)) (tokens b + tokens_to_add),
                       last_update := now\<rparr>)))"

record rate_info =
  limit :: int
  remaining :: int
  reset :: int
  retry_after :: int

text \<open>
  \<open>is_allowed\<close>. The limiter is returned with every write made before the return or
  the raise: the bucket the factory stored, the refill, the decrement. \<open>t_new\<close> is the
  clock reading of the factory (used only when the bucket is new), \<open>now\<close> the one of
  \<open>_refill_tokens\<close>. \<open>self.per / self.rate\<close> raises when \<open>rate\<close> is 0.
\<close>

definition is_allowed ::
  "RateLimiter \<Rightarrow> request \<Rightarrow> real \<Rightarrow> real \<Rightarrow> (exn + bool \<times> rate_info) \<times> RateLimiter" where
  "is_allowed self request t_new now =
     (let client_id = get_client_id request;
          (b0, self1) = buckets_getitem self client_id t_new
      in case refill_tokens self1 b0 now of
           Inl e \<Rightarrow> (Inl e, self1)
         | Inr b1 \<Rightarrow>
             (let allowed = (tokens b1 \<ge> 1);
                  b2 = (if allowed then b1\<lparr>tokens := tokens b1 - 1\<rparr> else b1);
                  self2 = self1\<lparr>buckets := (buckets self1)(client_id \<mapsto> b2)\<rparr>
              in if rate self = 0 then (Inl (ZeroDivisionError ''division by zero''), self2)
                 else
                   (let ra = py_int ((1 - tokens b2) * (real_of_int (per self) / real_of_int (rate self)))
                    in (Inr (allowed,
                             \<lparr>limit = rate self,
                              remaining = py_int (tokens b2),
                              reset = py_int (last_update b2 + real_of_int (per self)),
                              retry_after = (if \<not> allowed then ra else 0)\<rparr>),
                        self2))))"


record RateLimitMiddleware =
  limiters :: "string \<rightharpoonup> RateLimiter"

definition RateLimitMiddleware_init :: "int \<Rightarrow> int \<Rightarrow> RateLimitMiddleware" where
  "RateLimitMiddleware_init default_rate default_per =
     \<lparr>limiters = [''default'' \<mapsto> RateLimiter_init default_rate default_per,
                   ''auth'' \<mapsto> RateLimiter_init 10 60,
                   ''write'' \<mapsto> RateLimiter_init 30 60,
                   ''read'' \<mapsto> RateLimiter_init 100 60]\<rparr>"

definition get_limiter_type :: "request \<Rightarrow> string" where
  "get_limiter_type request =
     (let path = url_path request; m = http_method request
      in if str_contains ''login'' path \<or> str_contains ''callback'' path \<or> str_contains ''token'' path
         then ''auth''
         else if m \<in> set [''POST'', ''PUT'', ''PATCH'', ''DELETE''] then ''write''
         else if m = ''GET'' then ''read''
         else ''default'')"

definition health_paths :: "string list" where
  "health_paths = [''/health'', ''/health/live'', ''/health/ready'']"

text \<open>
  \<open>RateLimitMiddleware.dispatch\<close>. \<open>call_next\<close> is the rest of the chain: it returns
  a response or raises.
\<close>

definition RateLimitMiddleware_dispatch ::
  "RateLimitMiddleware \<Rightarrow> request \<Rightarrow> (request \<Rightarrow> exn + response) \<Rightarrow> real \<Rightarrow> real
     \<Rightarrow> (exn + response) \<times> RateLimitMiddleware" where
  "RateLimitMiddleware_dispatch self request call_next t_new now =
     (if url_path request \<in> set health_paths then (call_next request, self)
      else
        (let limiter_type = get_limiter_type request
         in case limiters self limiter_type of
              None \<Rightarrow> (Inl (KeyError limiter_type), self)
            | Some limiter \<Rightarrow>
                (let (res, limiter') = is_allowed limiter request t_new now;
                     self' = self\<lparr>limiters := (limiters self)(limiter_type \<mapsto> limiter')\<rparr>
                 in case res of
                      Inl e \<Rightarrow> (Inl e, self')
                    | Inr (allowed, info) \<Rightarrow>
                        if \<not> allowed then
                          (Inl (HTTPException 429
                                  (JObj [(''error'', JStr ''Rate limit exceeded''),
                                         (''retry_after'', JNum (retry_after info)),
                                         (''limit'', JNum (limit info))])
                                  [(''X-RateLimit-Limit'', str_int (limit info)),
                                   (''X-RateLimit-Remaining'', ''0''),
                                   (''X-RateLimit-Reset'', str_int (reset info)),
                                   (''Retry-After'', str_int (retry_after info))]),
                           self')
                        else
                          (case call_next request of
                             Inl e \<Rightarrow> (Inl e, self')
                           | Inr resp \<Rightarrow>
                               (Inr (resp\<lparr>resp_headers := (resp_headers resp)
                                        (''x-ratelimit-limit'' \<mapsto> str_int (limit info),
                                         ''x-ratelimit-remaining'' \<mapsto> str_int (remaining info),
                                         ''x-ratelimit-reset'' \<mapsto> str_int (reset info))\<rparr>),
                                self')))))"

section \<open>Python values\<close>

text \<open>Truthiness of a JSON value, as \<open>if v:\<close> tests it.\<close>

fun truthy :: "jval \<Rightarrow> bool" where
  "truthy JNull = False"
| "truthy (JBool b) = b"
| "truthy (JNum n) = (n \<noteq> 0)"
| "truthy (JStr s) = (s \<noteq> [])"
| "truthy (JArr xs) = (xs \<noteq> [])"
| "truthy (JObj kv) = (kv \<noteq> [])"

fun py_type_name :: "jval \<Rightarrow> string" where
  "py_type_name JNull = ''NoneType''"
| "py_type_name (JBool b) = ''bool''"
| "py_type_name (JNum n) = ''int''"
| "py_type_name (JStr s) = ''str''"
| "py_type_name (JArr xs) = ''list''"
| "py_type_name (JObj kv) = ''dict''"

definition no_attribute :: "jval \<Rightarrow> string \<Rightarrow> exn" where
  "no_attribute v a =
     AttributeError ([CHR 0x27] @ py_type_name v @ [CHR 0x27] @ '' object has no attribute ''
                     @ [CHR 0x27] @ a @ [CHR 0x27])"

text \<open>
  \<open>str.split()\<close> without arguments: the maximal runs of non-whitespace characters.
  Strings are modelled with code points below 256; \<open>is_space\<close> is \<open>str.isspace\<close> there.
\<close>

definition is_space :: "char \<Rightarrow> bool" where
  "is_space c = ((of_char c :: nat) \<in> set [9, 10, 11, 12, 13, 28, 29, 30, 31, 32, 133, 160])"

fun split_ws :: "string \<Rightarrow> string \<Rightarrow> string list" where
  "split_ws w [] = (if w = [] then [] else [w])"
| "split_ws w (c # cs) =
     (if is_space c then (if w = [] then split_ws [] cs else w # split_ws [] cs)
      else split_ws (w @ [c]) cs)"

definition py_split :: "string \<Rightarrow> string list" where
  "py_split s = split_ws [] s"

text \<open>
  \<open>x in v\<close> for a string \<open>x\<close>: an element of a list, a substring of a string, a key of
  a dict; a \<open>TypeError\<close> on the other values.
\<close>

definition str_in :: "string \<Rightarrow> jval \<Rightarrow> exn + bool" where
  "str_in x v =
     (case v of
        JArr xs \<Rightarrow> Inr (JStr x \<in> set xs)
      | JStr s \<Rightarrow> Inr (str_contains x s)
      | JObj kv \<Rightarrow> Inr (x \<in> set (map fst kv))
      | _ \<Rightarrow> Inl (TypeError (''argument of type '' @ [CHR 0x27] @ py_type_name v @ [CHR 0x27]
                              @ '' is not iterable'')))"

text \<open>\<open>for key in v\<close>: the values the loop visits.\<close>

definition py_iter :: "jval \<Rightarrow> exn + jval list" where
  "py_iter v =
     (case v of
        JArr xs \<Rightarrow> Inr xs
      | JStr s \<Rightarrow> Inr (map (\<lambda>c. JStr [c]) s)
      | JObj kv \<Rightarrow> Inr (map JStr (remdups (map fst kv)))
      | _ \<Rightarrow> Inl (TypeError ([CHR 0x27] @ py_type_name v @ [CHR 0x27] @ '' object is not iterable'')))"

text \<open>
  \<open>str(v)\<close> and \<open>repr(v)\<close> of a JSON value, used only for \<open>str()\<close> of an
  \<open>HTTPException\<close>; the escapes of \<open>repr\<close> on strings are not modelled.
\<close>

fun join_comma :: "string list \<Rightarrow> string" where
  "join_comma [] = []"
| "join_comma [x] = x"
| "join_comma (x # y # ys) = x @ '', '' @ join_comma (y # ys)"

fun py_repr :: "jval \<Rightarrow> string" where
  "py_repr JNull = ''None''"
| "py_repr (JBool b) = (if b then ''True'' else ''False'')"
| "py_repr (JNum n) = str_int n"
| "py_repr (JStr s) = [CHR 0x27] @ s @ [CHR 0x27]"
| "py_repr (JArr xs) = ''['' @ join_comma (map py_repr xs) @ '']''"
| "py_repr (JObj kv) =
     ''{'' @ join_comma (map (\<lambda>(k, v). [CHR 0x27] @ k @ [CHR 0x27] @ '': '' @ py_repr v) kv) @ ''}''"

definition py_str :: "jval \<Rightarrow> string" where
  "py_str v = (case v of JStr s \<Rightarrow> s | _ \<Rightarrow> py_repr v)"

text \<open>
  \<open>str(e)\<close>. \<open>APIException.__init__\<close> passes \<open>self.message\<close> to \<open>Exception\<close>, and
  \<open>TokenValidationError\<close> fixes the message to \<open>"Token validation failed"\<close>, so the
  reason is not part of \<open>str(e)\<close>.
\<close>

fun str_exn :: "exn \<Rightarrow> string" where
  "str_exn (TokenValidationError reason) = ''Token validation failed''"
| "str_exn (JWTError m) = m"
| "str_exn (HTTPError m) = m"
| "str_exn (ZeroDivisionError m) = m"
| "str_exn (KeyError k) = [CHR 0x27] @ k @ [CHR 0x27]"
| "str_exn (AttributeError m) = m"
| "str_exn (TypeError m) = m"
| "str_exn (HTTPException code detail hs) = str_int code @ '': '' @ py_str detail"
| "str_exn (OtherException m) = m"

section \<open>config.py\<close>

datatype env_name = development | staging | production

text \<open>The fields of \<open>Settings\<close> that the modelled code reads.\<close>

record Settings =
  tenant_id :: string
  api_app_id_uri :: string
  required_scope :: string
  jwks_uri :: "string option"
  environment :: env_name

definition jwks_endpoint :: "Settings \<Rightarrow> string" where
  "jwks_endpoint self =
     (case jwks_uri self of
        Some u \<Rightarrow> if u \<noteq> [] then u
                  else ''https://login.microsoftonline.com/'' @ tenant_id self @ ''/'' @ ''discovery/v2.0/keys''
      | None \<Rightarrow> ''https://login.microsoftonline.com/'' @ tenant_id self @ ''/'' @ ''discovery/v2.0/keys'')"

definition is_production :: "Settings \<Rightarrow> bool" where
  "is_production self = (environment self = production)"

section \<open>auth.py\<close>

text \<open>
  What the libraries and the network do, taken as parameters:
  \<^item> \<open>http_get_json url\<close>: \<open>self._http_client.get(url)\<close>, \<open>raise_for_status()\<close> and
    \<open>response.json()\<close>; an \<open>httpx.HTTPError\<close> is \<open>Inl (HTTPError m)\<close>;
  \<^item> \<open>get_unverified_header token\<close>: \<open>jwt.get_unverified_header\<close>;
  \<^item> \<open>verify_signature key token\<close>: \<open>jwk.construct(key, algorithm="RS256")\<close>, the
    \<open>rsplit\<close> of the token, \<open>base64url_decode\<close> and \<open>public_key.verify\<close>;
  \<^item> \<open>jwt_decode token key audience\<close>: \<open>jwt.decode\<close> with signature, expiry and
    audience verified and issuer verification off.
\<close>

record extern =
  http_get_json :: "string \<Rightarrow> exn + jval"
  get_unverified_header :: "string \<Rightarrow> exn + (string \<rightharpoonup> jval)"
  verify_signature :: "jval \<Rightarrow> string \<Rightarrow> exn + bool"
  jwt_decode :: "string \<Rightarrow> jval \<Rightarrow> string \<Rightarrow> exn + (string \<rightharpoonup> jval)"

record JWTValidator =
  settings :: Settings
  jwks_cache :: "jval option"

definition JWTValidator_init :: "Settings \<Rightarrow> JWTValidator" where
  "JWTValidator_init s = \<lparr>settings = s, jwks_cache = None\<rparr>"

text \<open>
  \<open>_fetch_jwks\<close>. The natural number counts the GET requests sent to the JWKS
  endpoint so far; it grows by one each time the cache is not used.
\<close>

definition fetch_jwks ::
  "extern \<Rightarrow> JWTValidator \<Rightarrow> nat \<Rightarrow> (exn + jval) \<times> JWTValidator \<times> nat" where
  "fetch_jwks ext self n =
     (case (case jwks_cache self of
              Some j \<Rightarrow> if truthy j then Some j else None
            | None \<Rightarrow> None) of
        Some j \<Rightarrow> (Inr j, self, n)
      | None \<Rightarrow>
          (case http_get_json ext (jwks_endpoint (settings self)) of
             Inr j \<Rightarrow> (Inr j, self\<lparr>jwks_cache := Some j\<rparr>, Suc n)
           | Inl (HTTPError m) \<Rightarrow>
               (Inl (TokenValidationError (''Unable to fetch JWKS: '' @ m)), self, Suc n)
           | Inl e \<Rightarrow> (Inl e, self, Suc n)))"

text \<open>The loop of \<open>_get_signing_key\<close> over the keys: the first key whose \<open>kid\<close> matches.\<close>

fun find_key :: "jval list \<Rightarrow> jval \<Rightarrow> exn + jval option" where
  "find_key [] kid = Inr None"
| "find_key (key # keys) kid =
     (case key of
        JObj kv \<Rightarrow> if map_of kv ''kid'' = Some kid then Inr (Some key) else find_key keys kid
      | _ \<Rightarrow> Inl (no_attribute key ''get''))"

definition get_signing_key :: "extern \<Rightarrow> string \<Rightarrow> jval \<Rightarrow> exn + jval" where
  "get_signing_key ext token jwks =
     (case get_unverified_header ext token of
        Inl (JWTError m) \<Rightarrow> Inl (TokenValidationError (''Invalid token header: '' @ m))
      | Inl e \<Rightarrow> Inl e
      | Inr unverified_header \<Rightarrow>
          (case (case unverified_header ''kid'' of
                   Some kid \<Rightarrow> if truthy kid then Some kid else None
                 | None \<Rightarrow> None) of
             None \<Rightarrow> Inl (TokenValidationError
                          (''Token header missing '' @ [CHR 0x27] @ ''kid'' @ [CHR 0x27] @ '' claim''))
           | Some kid \<Rightarrow>
               (case jwks of
                  JObj kv \<Rightarrow>
                    (case py_iter (case map_of kv ''keys'' of None \<Rightarrow> JArr [] | Some ks \<Rightarrow> ks) of
                       Inl e \<Rightarrow> Inl e
                     | Inr keys \<Rightarrow>
                         (case find_key keys kid of
                            Inl e \<Rightarrow> Inl e
                          | Inr (Some key) \<Rightarrow> Inr key
                          | Inr None \<Rightarrow>
                              Inl (TokenValidationError
                                     (''Signing key with kid '' @ [CHR 0x27] @ py_str kid @ [CHR 0x27]
                                      @ '' not found in JWKS''))))
                | _ \<Rightarrow> Inl (no_attribute jwks ''get''))))"

text \<open>
  \<open>if "alg" not in signing_key: signing_key["alg"] = "RS256"\<close>. The key is an object
  inside the cached key set, so the write shows in the cache as well.
\<close>

definition with_alg :: "jval \<Rightarrow> jval" where
  "with_alg key =
     (case key of
        JObj kv \<Rightarrow> if ''alg'' \<in> set (map fst kv) then key else JObj (kv @ [(''alg'', JStr ''RS256'')])
      | _ \<Rightarrow> key)"

fun replace_first :: "'a \<Rightarrow> 'a \<Rightarrow> 'a list \<Rightarrow> 'a list" where
  "replace_first x y [] = []"
| "replace_first x y (z # zs) = (if z = x then y # zs else z # replace_first x y zs)"

definition jwks_with_alg :: "jval \<Rightarrow> jval \<Rightarrow> jval" where
  "jwks_with_alg jwks key =
     (case jwks of
        JObj kv \<Rightarrow>
          (case map_of kv ''keys'' of
             Some (JArr keys) \<Rightarrow>
               JObj (map (\<lambda>(k, v). if k = ''keys'' then (k, JArr (replace_first key (with_alg key) keys))
                                   else (k, v)) kv)
           | _ \<Rightarrow> jwks)
      | _ \<Rightarrow> jwks)"

definition expected_issuers :: "Settings \<Rightarrow> string list" where
  "expected_issuers s =
     [''https://login.microsoftonline.com/'' @ tenant_id s @ ''/v2.0'',
      ''https://sts.windows.net/'' @ tenant_id s @ ''/'']"

text \<open>The manual issuer validation of \<open>validate_token\<close>.\<close>

definition check_issuer :: "Settings \<Rightarrow> (string \<rightharpoonup> jval) \<Rightarrow> exn + unit" where
  "check_issuer s claims =
     (let token_issuer = (case claims ''iss'' of None \<Rightarrow> JStr [] | Some v \<Rightarrow> v)
      in if \<not> (\<exists>issuer \<in> set (expected_issuers s). token_issuer = JStr issuer)
         then Inl (TokenValidationError
                     (''Invalid issuer. Expected one of '' @ py_repr (JArr (map JStr (expected_issuers s)))
                      @ '', got '' @ py_str token_issuer))
         else Inr ())"

text \<open>\<open>scopes = claims.get("scp", "").split() or claims.get("roles", [])\<close>.\<close>

definition granted_scopes :: "(string \<rightharpoonup> jval) \<Rightarrow> exn + jval" where
  "granted_scopes claims =
     (case (case claims ''scp'' of None \<Rightarrow> JStr [] | Some v \<Rightarrow> v) of
        JStr scp \<Rightarrow>
          if py_split scp \<noteq> [] then Inr (JArr (map JStr (py_split scp)))
          else Inr (case claims ''roles'' of None \<Rightarrow> JArr [] | Some r \<Rightarrow> r)
      | v \<Rightarrow> Inl (no_attribute v ''split''))"

text \<open>The required-scope validation of \<open>validate_token\<close>.\<close>

definition check_scope :: "Settings \<Rightarrow> (string \<rightharpoonup> jval) \<Rightarrow> exn + unit" where
  "check_scope s claims =
     (case granted_scopes claims of
        Inl e \<Rightarrow> Inl e
      | Inr scopes \<Rightarrow>
          (case str_in (required_scope s) scopes of
             Inl e \<Rightarrow> Inl e
           | Inr present \<Rightarrow>
               if \<not> present
               then Inl (TokenValidationError (''Token missing required scope: '' @ required_scope s))
               else Inr ()))"

text \<open>The body of the \<open>try\<close> block of \<open>validate_token\<close>.\<close>

definition validate_body ::
  "extern \<Rightarrow> JWTValidator \<Rightarrow> string \<Rightarrow> nat \<Rightarrow> (exn + (string \<rightharpoonup> jval)) \<times> JWTValidator \<times> nat" where
  "validate_body ext self token n =
     (case fetch_jwks ext self n of
        (Inl e, self1, n1) \<Rightarrow> (Inl e, self1, n1)
      | (Inr jwks, self1, n1) \<Rightarrow>
          (case get_signing_key ext token jwks of
             Inl e \<Rightarrow> (Inl e, self1, n1)
           | Inr key \<Rightarrow>
               (let signing_key = with_alg key;
                    self2 = self1\<lparr>jwks_cache := Some (jwks_with_alg jwks key)\<rparr>
                in case verify_signature ext signing_key token of
                     Inl e \<Rightarrow> (Inl e, self2, n1)
                   | Inr False \<Rightarrow> (Inl (TokenValidationError ''Invalid token signature''), self2, n1)
                   | Inr True \<Rightarrow>
                       (case jwt_decode ext token signing_key (api_app_id_uri (settings self)) of
                          Inl e \<Rightarrow> (Inl e, self2, n1)
                        | Inr claims \<Rightarrow>
                            (case check_issuer (settings self) claims of
                               Inl e \<Rightarrow> (Inl e, self2, n1)
                             | Inr _ \<Rightarrow>
                                 (case check_scope (settings self) claims of
                                    Inl e \<Rightarrow> (Inl e, self2, n1)
                                  | Inr _ \<Rightarrow> (Inr claims, self2, n1)))))))"

text \<open>
  \<open>validate_token\<close>: the body under its two handlers. A \<open>TokenValidationError\<close> raised
  in the body is not a \<open>JWTError\<close>, so \<open>except Exception\<close> catches it too.
\<close>

definition validate_token ::
  "extern \<Rightarrow> JWTValidator \<Rightarrow> string \<Rightarrow> nat \<Rightarrow> (exn + (string \<rightharpoonup> jval)) \<times> JWTValidator \<times> nat" where
  "validate_token ext self token n =
     (case validate_body ext self token n of
        (Inr claims, self', n') \<Rightarrow> (Inr claims, self', n')
      | (Inl (JWTError m), self', n') \<Rightarrow> (Inl (TokenValidationError m), self', n')
      | (Inl e, self', n') \<Rightarrow>
          (Inl (TokenValidationError (''Token validation error: '' @ str_exn e)), self', n'))"

text \<open>
  \<open>get_current_user\<close>, with the bearer token of the credentials (\<open>None\<close> when the
  request has none) and the number of GET requests sent so far.
\<close>

definition get_current_user ::
  "extern \<Rightarrow> Settings \<Rightarrow> string option \<Rightarrow> nat \<Rightarrow> (exn + (string \<rightharpoonup> jval)) \<times> nat" where
  "get_current_user ext s credentials n =
     (case credentials of
        None \<Rightarrow>
          (Inl (HTTPException 401 (JStr ''Missing authentication token'')
                  [(''WWW-Authenticate'', ''Bearer'')]), n)
      | Some token \<Rightarrow>
          (let validator = JWTValidator_init s
           in case validate_token ext validator token n of
                (Inr claims, _, n') \<Rightarrow> (Inr claims, n')
              | (Inl (TokenValidationError reason), _, n') \<Rightarrow>
                  (Inl (HTTPException 401 (JStr ''Token validation failed'')
                          [(''WWW-Authenticate'', ''Bearer error='' @ [CHR 0x22] @ reason @ [CHR 0x22])]), n')
              | (Inl e, _, n') \<Rightarrow>
                  (Inl (HTTPException 401 (JStr ''Authentication failed'')
                          [(''WWW-Authenticate'', ''Bearer'')]), n')))"

text \<open>Requests served one after the other in one process: the GET requests sent in all.\<close>

fun serve_all :: "extern \<Rightarrow> Settings \<Rightarrow> string option list \<Rightarrow> nat \<Rightarrow> nat" where
  "serve_all ext s [] n = n"
| "serve_all ext s (c # cs) n = serve_all ext s cs (snd (get_current_user ext s c n))"

text \<open>Tokens validated one after the other by one validator object.\<close>

fun validate_all :: "extern \<Rightarrow> JWTValidator \<Rightarrow> string list \<Rightarrow> nat \<Rightarrow> JWTValidator \<times> nat" where
  "validate_all ext self [] n = (self, n)"
| "validate_all ext self (t # ts) n =
     (case validate_token ext self t n of (_, self', n') \<Rightarrow> validate_all ext self' ts n')"

section \<open>middleware.py\<close>

text \<open>
  \<open>CorrelationIdMiddleware.dispatch\<close>; \<open>uuid4\<close> is the string \<open>str(uuid.uuid4())\<close>
  would return.
\<close>

definition CorrelationIdMiddleware_dispatch ::
  "request \<Rightarrow> (request \<Rightarrow> exn + response) \<Rightarrow> string \<Rightarrow> exn + response" where
  "CorrelationIdMiddleware_dispatch request call_next uuid4 =
     (let correlation_id =
            (case req_headers request ''x-correlation-id'' of
               Some v \<Rightarrow> if v \<noteq> [] then v else uuid4
             | None \<Rightarrow> uuid4);
          request' = request\<lparr>state := (state request)(''correlation_id'' \<mapsto> correlation_id)\<rparr>
      in case call_next request' of
           Inl e \<Rightarrow> Inl e
         | Inr resp \<Rightarrow>
             Inr (resp\<lparr>resp_headers := (resp_headers resp)(''x-correlation-id'' \<mapsto> correlation_id)\<rparr>))"

section \<open>main.py\<close>

text \<open>
  \<open>general_exception_handler\<close>. The headers a \<open>JSONResponse\<close> sets by itself are
  left out.
\<close>

definition general_exception_handler :: "Settings \<Rightarrow> request \<Rightarrow> exn \<Rightarrow> response" where
  "general_exception_handler s request exc =
     \<lparr>status_code = 500,
      content = JObj [(''error'', JStr ''Internal server error''),
                      (''details'', if is_production s then JObj []
                                    else JObj [(''message'', JStr (str_exn exc))])],
      resp_headers = Map.empty\<rparr>"

section \<open>Notions used in the statements\<close>







text \<open>The \<open>details\<close> entry of a JSON response body.\<close>

definition details_of :: "response \<Rightarrow> jval option" where
  "details_of resp = (case content resp of JObj kv \<Rightarrow> map_of kv ''details'' | _ \<Rightarrow> None)"

section \<open>Concrete inputs\<close>

text \<open>
  A key server with one RSA key \<open>k1\<close>, a library that accepts every signature of a
  token signed with \<open>k1\<close> and decodes it to the given claims.
\<close>

definition sample_extern :: "(string \<rightharpoonup> jval) \<Rightarrow> extern" where
  "sample_extern claims =
     \<lparr>http_get_json =
        (\<lambda>url. Inr (JObj [(''keys'', JArr [JObj [(''kid'', JStr ''k1''), (''kty'', JStr ''RSA'')]])])),
      get_unverified_header = (\<lambda>token. Inr [''kid'' \<mapsto> JStr ''k1'', ''alg'' \<mapsto> JStr ''RS256'']),
      verify_signature = (\<lambda>key token. Inr True),
      jwt_decode = (\<lambda>token key audience. Inr claims)\<rparr>"

definition sample_settings :: "env_name \<Rightarrow> Settings" where
  "sample_settings e =
     \<lparr>tenant_id = ''11111111-2222-3333-4444-555555555555'',
      api_app_id_uri = ''api://blog'',
      required_scope = ''access_as_user'',
      jwks_uri = None,
      environment = e\<rparr>"

definition sample_request :: "string \<Rightarrow> string \<Rightarrow> request" where
  "sample_request host path =
     \<lparr>client_host = Some host, state = Map.empty, url_path = path, http_method = ''GET'',
      req_headers = Map.empty\<rparr>"

definition sample_response :: response where
  "sample_response = \<lparr>status_code = 200, content = JObj [], resp_headers = Map.empty\<rparr>"

text \<open>A handler that answers with the correlation id it finds in the request state.\<close>

definition echo_correlation_id :: "request \<Rightarrow> exn + response" where
  "echo_correlation_id r =
     Inr \<lparr>status_code = 200,
          content = (case state r ''correlation_id'' of Some c \<Rightarrow> JStr c | None \<Rightarrow> JNull),
          resp_headers = Map.empty\<rparr>"

section \<open>The rate limiter\<close>

subsection \<open>Steps and runs\<close>









subsection \<open>The capacity bound\<close>



subsection \<open>A fresh bucket\<close>







subsection \<open>One call\<close>





subsection \<open>Health checks and separate clients\<close>

text \<open>
  C7. For a request whose path is one of the health-check paths \<open>/health\<close>,
  \<open>/health/live\<close>, \<open>/health/ready\<close>, whatever the limiters hold and whatever the
  clock reads, \<open>RateLimitMiddleware.dispatch\<close> returns what the next handler returns
  for the request and leaves every limiter as it was. So the outcome does not depend on
  any bucket, no bucket is written, and the 429 rejection of the middleware is never
  produced.
\<close>

theorem health_paths_bypass_rate_limit:
  assumes "url_path request \<in> set health_paths"
  shows "RateLimitMiddleware_dispatch self request call_next t_new now = (call_next request, self)"
  using assms by (simp add: RateLimitMiddleware_dispatch_def)

theorem health_paths_bypass_rate_limit_witness:
  "url_path (sample_request ''10.0.0.1'' ''/health/ready'') \<in> set health_paths
   \<and> RateLimitMiddleware_dispatch
        \<lparr>limiters = [''read'' \<mapsto> \<lparr>rate = 100, per = 60,
                                    buckets = [''10.0.0.1'' \<mapsto> \<lparr>tokens = 0, last_update = 0\<rparr>]\<rparr>]\<rparr>
        (sample_request ''10.0.0.1'' ''/health/ready'') (\<lambda>r. Inr sample_response) 0 0
     = (Inr sample_response,
        \<lparr>limiters = [''read'' \<mapsto> \<lparr>rate = 100, per = 60,
                                    buckets = [''10.0.0.1'' \<mapsto> \<lparr>tokens = 0, last_update = 0\<rparr>]\<rparr>]\<rparr>)"
proof -
  have h: "url_path (sample_request ''10.0.0.1'' ''/health/ready'') \<in> set health_paths"
    by (simp add: sample_request_def health_paths_def)
  show ?thesis
    using h health_paths_bypass_rate_limit [OF h] by simp
qed

text \<open>
  C8. When two requests map to different client identifiers, an \<open>is_allowed\<close> call
  for the first leaves the entry of the second in the limiter's bucket map as it was:
  the same token count and the same \<open>last_update\<close>, or still no bucket.
\<close>

theorem is_allowed_leaves_other_clients:
  assumes "get_client_id r1 \<noteq> get_client_id r2"
  shows "buckets (snd (is_allowed self r1 t_new now)) (get_client_id r2)
         = buckets self (get_client_id r2)"
  using assms
  by (auto simp: is_allowed_def buckets_getitem_def refill_tokens_def Let_def
      split: option.splits prod.splits sum.splits if_splits)

theorem is_allowed_leaves_other_clients_witness:
  "get_client_id (sample_request ''10.0.0.1'' ''/v1/posts'')
     \<noteq> get_client_id (sample_request ''10.0.0.2'' ''/v1/posts'')
   \<and> buckets (snd (is_allowed
                      \<lparr>rate = 100, per = 60,
                       buckets = [''10.0.0.2'' \<mapsto> \<lparr>tokens = 7, last_update = 3\<rparr>]\<rparr>
                      (sample_request ''10.0.0.1'' ''/v1/posts'') 5 5))
        (get_client_id (sample_request ''10.0.0.2'' ''/v1/posts''))
     = Some \<lparr>tokens = 7, last_update = 3\<rparr>"
proof -
  have h: "get_client_id (sample_request ''10.0.0.1'' ''/v1/posts'')
             \<noteq> get_client_id (sample_request ''10.0.0.2'' ''/v1/posts'')"
    by (simp add: get_client_id_def sample_request_def)
  have "buckets \<lparr>rate = 100, per = 60,
                 buckets = [''10.0.0.2'' \<mapsto> \<lparr>tokens = 7, last_update = 3\<rparr>]\<rparr>
          (get_client_id (sample_request ''10.0.0.2'' ''/v1/posts''))
        = Some \<lparr>tokens = 7, last_update = 3\<rparr>"
    by (simp add: get_client_id_def sample_request_def)
  with h is_allowed_leaves_other_clients [OF h] show ?thesis by simp
qed

section \<open>Token validation\<close>

subsection \<open>What \<open>validate_token\<close> returns\<close>


lemma validate_token_result:
  "(\<exists>reason. fst (validate_token ext self token n) = Inl (TokenValidationError reason))
   \<or> (\<exists>claims. fst (validate_token ext self token n) = Inr claims)"
  by (auto simp: validate_token_def split: prod.splits sum.splits exn.splits)

lemma validate_token_Inr:
  assumes "fst (validate_token ext self token n) = Inr claims"
  shows "fst (validate_body ext self token n) = Inr claims"
  using assms
  by (auto simp: validate_token_def split: prod.splits sum.splits exn.splits)

lemma validate_body_Inr:
  assumes "fst (validate_body ext self token n) = Inr claims"
  shows "(\<exists>key. jwt_decode ext token key (api_app_id_uri (settings self)) = Inr claims)
         \<and> check_issuer (settings self) claims = Inr ()
         \<and> check_scope (settings self) claims = Inr ()"
  using assms
  by (auto simp: validate_body_def Let_def split: prod.splits sum.splits bool.splits)





subsection \<open>The required scope\<close>


lemmas validate_defs =
  validate_token_def validate_body_def fetch_jwks_def get_signing_key_def py_iter_def
  with_alg_def jwks_with_alg_def check_issuer_def expected_issuers_def check_scope_def
  granted_scopes_def str_in_def py_split_def is_space_def sample_extern_def
  sample_settings_def JWTValidator_init_def jwks_endpoint_def



subsection \<open>The issuer\<close>

text \<open>
  A token whose issuer is outside the allow-list is never accepted: when every claim
  set the token can decode to has an \<open>iss\<close> claim different from both expected
  issuers (or none), \<open>validate_token\<close> fails with a \<open>TokenValidationError\<close>.
\<close>

lemma check_issuer_outside:
  assumes "\<forall>i \<in> set (expected_issuers s). claims ''iss'' \<noteq> Some (JStr i)"
  shows "\<exists>e. check_issuer s claims = Inl e"
  using assms
  by (auto simp: check_issuer_def expected_issuers_def Let_def split: option.splits)

lemma invalid_issuer_never_returns_claims:
  assumes "\<forall>key claims. jwt_decode ext token key (api_app_id_uri (settings self)) = Inr claims \<longrightarrow>
             (\<forall>i \<in> set (expected_issuers (settings self)). claims ''iss'' \<noteq> Some (JStr i))"
  shows "\<exists>reason. fst (validate_token ext self token n) = Inl (TokenValidationError reason)"
proof (rule disjE [OF validate_token_result [of ext self token n]])
  assume "\<exists>reason. fst (validate_token ext self token n) = Inl (TokenValidationError reason)"
  then show ?thesis .
next
  assume "\<exists>claims. fst (validate_token ext self token n) = Inr claims"
  then obtain claims where "fst (validate_token ext self token n) = Inr claims" ..
  then have body: "fst (validate_body ext self token n) = Inr claims"
    by (rule validate_token_Inr)
  from validate_body_Inr [OF body] obtain key where
    dec: "jwt_decode ext token key (api_app_id_uri (settings self)) = Inr claims"
    and ok: "check_issuer (settings self) claims = Inr ()"
    by blast
  from assms dec have "\<forall>i \<in> set (expected_issuers (settings self)). claims ''iss'' \<noteq> Some (JStr i)"
    by blast
  then have "\<exists>e. check_issuer (settings self) claims = Inl e"
    by (rule check_issuer_outside)
  with ok show ?thesis by simp
qed

text \<open>
  C2. A token with a valid signature, the required scope and the issuer
  \<open>https://evil.example/\<close>: the issuer validation raises a \<open>TokenValidationError\<close>
  whose reason starts with \<open>Invalid issuer\<close>, the \<open>except Exception\<close> handler of
  \<open>validate_token\<close> catches it, and the error \<open>validate_token\<close> raises has the reason
  \<open>Token validation error: Token validation failed\<close>, which does not name the issuer.
\<close>

theorem invalid_issuer_reason_is_replaced:
  "check_issuer (sample_settings production)
     [''iss'' \<mapsto> JStr ''https://evil.example/'', ''scp'' \<mapsto> JStr ''access_as_user'']
     = Inl (TokenValidationError
              (''Invalid issuer. Expected one of ''
               @ py_repr (JArr (map JStr (expected_issuers (sample_settings production))))
               @ '', got https://evil.example/''))
   \<and> fst (validate_token
            (sample_extern
               [''iss'' \<mapsto> JStr ''https://evil.example/'', ''scp'' \<mapsto> JStr ''access_as_user''])
            (JWTValidator_init (sample_settings production)) ''h.p.s'' 0)
       = Inl (TokenValidationError ''Token validation error: Token validation failed'')"
  by (simp add: validate_defs py_str_def)

subsection \<open>The key cache\<close>

text \<open>
  A validator whose cache holds a key set sends no request; \<open>get_current_user\<close>
  builds a new validator, with an empty cache, for every request that carries a token,
  so each such request sends one.
\<close>

lemma fetch_jwks_count:
  "snd (snd (fetch_jwks ext self n)) =
     (case jwks_cache self of
        Some j \<Rightarrow> if truthy j then n else Suc n
      | None \<Rightarrow> Suc n)"
  by (simp add: fetch_jwks_def split: option.splits sum.splits exn.splits)

lemma validate_body_count:
  "snd (snd (validate_body ext self token n)) = snd (snd (fetch_jwks ext self n))"
  by (simp add: validate_body_def Let_def split: prod.splits sum.splits bool.splits)

lemma validate_token_count:
  "snd (snd (validate_token ext self token n)) = snd (snd (validate_body ext self token n))"
  by (simp add: validate_token_def split: prod.splits sum.splits exn.splits)

lemma cached_validator_sends_no_request:
  assumes "jwks_cache self = Some j" and "truthy j"
  shows "snd (snd (validate_token ext self token n)) = n"
  using assms by (simp add: validate_token_count validate_body_count fetch_jwks_count)

lemma get_current_user_count:
  "snd (get_current_user ext s (Some token) n)
   = snd (snd (validate_token ext (JWTValidator_init s) token n))"
  by (simp add: get_current_user_def Let_def split: prod.splits sum.splits exn.splits)

lemma get_current_user_sends_one_request:
  "snd (get_current_user ext s (Some token) n) = Suc n"
  by (simp add: get_current_user_count validate_token_count validate_body_count fetch_jwks_count
        JWTValidator_init_def)

lemma serve_all_sends_one_request_each:
  "serve_all ext s (map Some toks) n = n + length toks"
  by (induction toks arbitrary: n) (simp_all add: get_current_user_sends_one_request)

lemma one_validator_sends_one_request:
  "snd (validate_all
          (sample_extern
             [''iss'' \<mapsto> JStr ''https://sts.windows.net/11111111-2222-3333-4444-555555555555/'',
              ''scp'' \<mapsto> JStr ''access_as_user''])
          (JWTValidator_init (sample_settings production)) [''h.p.s'', ''h.p.s''] 0) = 1"
  by (simp add: validate_defs)

text \<open>
  C3. Two requests with the same valid token, served one after the other in one
  process that has sent no request to the JWKS endpoint yet: both validations succeed
  and return the claims, and two GET requests have been sent, one for each.
\<close>

theorem each_request_fetches_jwks:
  "fst (get_current_user
          (sample_extern
             [''iss'' \<mapsto> JStr ''https://sts.windows.net/11111111-2222-3333-4444-555555555555/'',
              ''scp'' \<mapsto> JStr ''access_as_user''])
          (sample_settings production) (Some ''h.p.s'') 0)
     = Inr [''iss'' \<mapsto> JStr ''https://sts.windows.net/11111111-2222-3333-4444-555555555555/'',
            ''scp'' \<mapsto> JStr ''access_as_user'']
   \<and> fst (get_current_user
          (sample_extern
             [''iss'' \<mapsto> JStr ''https://sts.windows.net/11111111-2222-3333-4444-555555555555/'',
              ''scp'' \<mapsto> JStr ''access_as_user''])
          (sample_settings production) (Some ''h.p.s'') 1)
     = Inr [''iss'' \<mapsto> JStr ''https://sts.windows.net/11111111-2222-3333-4444-555555555555/'',
            ''scp'' \<mapsto> JStr ''access_as_user'']
   \<and> serve_all
         (sample_extern
            [''iss'' \<mapsto> JStr ''https://sts.windows.net/11111111-2222-3333-4444-555555555555/'',
             ''scp'' \<mapsto> JStr ''access_as_user''])
         (sample_settings production) [Some ''h.p.s'', Some ''h.p.s''] 0 = 2"
  by (simp add: get_current_user_def validate_defs)

section \<open>The outermost exception handler\<close>

text \<open>
  C9, amended. For every exception that reaches \<open>general_exception_handler\<close>, the
  response has status 500; its \<open>details\<close> field is the empty object when the
  configured environment is \<open>production\<close>, and holds the message of the exception in
  every other environment (\<open>development\<close> and \<open>staging\<close>).
\<close>

theorem unhandled_fault_details_suppressed_in_production:
  "status_code (general_exception_handler s request exc) = 500
   \<and> details_of (general_exception_handler s request exc)
       = Some (if environment s = production then JObj []
               else JObj [(''message'', JStr (str_exn exc))])"
  by (simp add: general_exception_handler_def details_of_def is_production_def)

text \<open>
  Outside development mode the details are not always empty: in \<open>staging\<close> the
  response carries the message of the exception.
\<close>

theorem staging_shows_details_counterexample:
  "environment (sample_settings staging) \<noteq> development
   \<and> status_code (general_exception_handler (sample_settings staging)
                    (sample_request ''10.0.0.1'' ''/v1/posts'') (OtherException ''boom'')) = 500
   \<and> details_of (general_exception_handler (sample_settings staging)
                    (sample_request ''10.0.0.1'' ''/v1/posts'') (OtherException ''boom''))
       = Some (JObj [(''message'', JStr ''boom'')])
   \<and> details_of (general_exception_handler (sample_settings staging)
                    (sample_request ''10.0.0.1'' ''/v1/posts'') (OtherException ''boom''))
       \<noteq> Some (JObj [])"
  by (simp add: general_exception_handler_def details_of_def is_production_def sample_settings_def)

section \<open>The correlation id\<close>

text \<open>
  C10. When the request carries an \<open>X-Correlation-ID\<close> header with a non-empty
  value, the next handler is called with that value stored under
  \<open>request.state.correlation_id\<close>, and the response it returns is returned with the
  \<open>X-Correlation-ID\<close> header set to the same value. When the header is missing or
  empty, the same happens with the freshly generated UUID. So every response that
  \<open>dispatch\<close> returns carries an \<open>X-Correlation-ID\<close> header.
\<close>

theorem correlation_id_echoed_or_generated:
  "(req_headers rq1 ''x-correlation-id'' = Some v \<and> v \<noteq> [] \<longrightarrow>
      CorrelationIdMiddleware_dispatch rq1 call_next1 uuid1 =
        (case call_next1 (rq1\<lparr>state := (state rq1)(''correlation_id'' \<mapsto> v)\<rparr>) of
           Inl e \<Rightarrow> Inl e
         | Inr resp \<Rightarrow> Inr (resp\<lparr>resp_headers := (resp_headers resp)(''x-correlation-id'' \<mapsto> v)\<rparr>)))
   \<and> (req_headers rq2 ''x-correlation-id'' = None \<or> req_headers rq2 ''x-correlation-id'' = Some [] \<longrightarrow>
      CorrelationIdMiddleware_dispatch rq2 call_next2 uuid2 =
        (case call_next2 (rq2\<lparr>state := (state rq2)(''correlation_id'' \<mapsto> uuid2)\<rparr>) of
           Inl e \<Rightarrow> Inl e
         | Inr resp \<Rightarrow> Inr (resp\<lparr>resp_headers := (resp_headers resp)(''x-correlation-id'' \<mapsto> uuid2)\<rparr>)))
   \<and> (CorrelationIdMiddleware_dispatch rq3 call_next3 uuid3 = Inr resp3 \<longrightarrow>
      (\<exists>cid. resp_headers resp3 ''x-correlation-id'' = Some cid))"
  by (auto simp: CorrelationIdMiddleware_dispatch_def Let_def split: option.splits sum.splits)

theorem correlation_id_echoed_or_generated_witness:
  "req_headers ((sample_request ''10.0.0.1'' ''/v1/posts'')
                   \<lparr>req_headers := [''x-correlation-id'' \<mapsto> ''abc-123'']\<rparr>) ''x-correlation-id''
     = Some ''abc-123''
   \<and> ''abc-123'' \<noteq> []
   \<and> CorrelationIdMiddleware_dispatch
        ((sample_request ''10.0.0.1'' ''/v1/posts'')\<lparr>req_headers := [''x-correlation-id'' \<mapsto> ''abc-123'']\<rparr>)
        echo_correlation_id ''0b5c1c3e-7d2a-4c11-9f0e-2a6d5b8e4f10''
     = Inr \<lparr>status_code = 200, content = JStr ''abc-123'',
            resp_headers = [''x-correlation-id'' \<mapsto> ''abc-123'']\<rparr>
   \<and> req_headers (sample_request ''10.0.0.1'' ''/v1/posts'') ''x-correlation-id'' = None
   \<and> CorrelationIdMiddleware_dispatch (sample_request ''10.0.0.1'' ''/v1/posts'')
        echo_correlation_id ''0b5c1c3e-7d2a-4c11-9f0e-2a6d5b8e4f10''
     = Inr \<lparr>status_code = 200, content = JStr ''0b5c1c3e-7d2a-4c11-9f0e-2a6d5b8e4f10'',
            resp_headers = [''x-correlation-id'' \<mapsto> ''0b5c1c3e-7d2a-4c11-9f0e-2a6d5b8e4f10'']\<rparr>
   \<and> (\<exists>cid. resp_headers \<lparr>status_code = 200, content = JStr ''0b5c1c3e-7d2a-4c11-9f0e-2a6d5b8e4f10'',
                  resp_headers = [''x-correlation-id'' \<mapsto> ''0b5c1c3e-7d2a-4c11-9f0e-2a6d5b8e4f10'']\<rparr>
               ''x-correlation-id'' = Some cid)"
proof -
  let ?rq1 = "(sample_request ''10.0.0.1'' ''/v1/posts'')\<lparr>req_headers := [''x-correlation-id'' \<mapsto> ''abc-123'']\<rparr>"
  let ?rq2 = "sample_request ''10.0.0.1'' ''/v1/posts''"
  let ?u = "''0b5c1c3e-7d2a-4c11-9f0e-2a6d5b8e4f10''"
  let ?r2 = "\<lparr>status_code = 200, content = JStr ?u, resp_headers = [''x-correlation-id'' \<mapsto> ?u]\<rparr>"
  have h1: "req_headers ?rq1 ''x-correlation-id'' = Some ''abc-123'' \<and> ''abc-123'' \<noteq> []"
    by simp
  have h2: "req_headers ?rq2 ''x-correlation-id'' = None \<or> req_headers ?rq2 ''x-correlation-id'' = Some []"
    by (simp add: sample_request_def)
  note th = correlation_id_echoed_or_generated
              [of ?rq1 "''abc-123''" echo_correlation_id ?u ?rq2 echo_correlation_id ?u
                  ?rq2 echo_correlation_id ?u ?r2]
  from th h1 have "CorrelationIdMiddleware_dispatch ?rq1 echo_correlation_id ?u =
        (case echo_correlation_id (?rq1\<lparr>state := (state ?rq1)(''correlation_id'' \<mapsto> ''abc-123'')\<rparr>) of
           Inl e \<Rightarrow> Inl e
         | Inr resp \<Rightarrow> Inr (resp\<lparr>resp_headers := (resp_headers resp)(''x-correlation-id'' \<mapsto> ''abc-123'')\<rparr>))"
    by blast
  then have r1: "CorrelationIdMiddleware_dispatch ?rq1 echo_correlation_id ?u
     = Inr \<lparr>status_code = 200, content = JStr ''abc-123'',
            resp_headers = [''x-correlation-id'' \<mapsto> ''abc-123'']\<rparr>"
    by (simp add: echo_correlation_id_def)
  from th h2 have "CorrelationIdMiddleware_dispatch ?rq2 echo_correlation_id ?u =
        (case echo_correlation_id (?rq2\<lparr>state := (state ?rq2)(''correlation_id'' \<mapsto> ?u)\<rparr>) of
           Inl e \<Rightarrow> Inl e
         | Inr resp \<Rightarrow> Inr (resp\<lparr>resp_headers := (resp_headers resp)(''x-correlation-id'' \<mapsto> ?u)\<rparr>))"
    by blast
  then have r2: "CorrelationIdMiddleware_dispatch ?rq2 echo_correlation_id ?u = Inr ?r2"
    by (simp add: echo_correlation_id_def)
  from th r2 have r3: "\<exists>cid. resp_headers ?r2 ''x-correlation-id'' = Some cid"
    by blast
  have n2: "req_headers ?rq2 ''x-correlation-id'' = None"
    by (simp add: sample_request_def)
  from h1 r1 n2 r2 r3 show ?thesis by blast
qed

end
